theory Spec2Isabelle
  imports Main "HOL-Library.Word"
begin

unbundle bit_operations_syntax

section \<open>The K-line UART driver of the LPC15xx (EcuUartLPC15xx.cpp)\<close>

text \<open>
  The driver is a set of short routines over memory-mapped registers. Each routine is
  embedded as a function on a record of the registers it touches. Every register write,
  and every read of the receive data register (the one read that consumes something),
  is appended to a trace, so that "writes nothing" and "reads exactly one byte" are
  statements about the trace. The two busy-wait loops (\<open>send\<close>, \<open>getEcho\<close>) see the
  peripheral change under them: the values the volatile registers show at the n-th poll
  are given by an environment, and a loop that never leaves is the value \<open>None\<close>.
  The routines \<open>instance\<close> and \<open>init\<close> (the set-up through the ROM UART routines) take
  no part in the properties below and are left out.
\<close>

subsection \<open>Constants of the translation unit\<close>

definition TxPin :: int where "TxPin = 8"
definition RxPin :: int where "RxPin = 7"
definition RxPort :: int where "RxPort = 0"
definition TxPort :: int where "TxPort = 0"

definition PinAssign :: "32 word" where
  "PinAssign = word_of_int ((push_bit 16 RxPin + RxPort * 32) OR (push_bit 8 TxPin + TxPort * 32))"

text \<open>
  The headers \<open>UartLPC15xx.h\<close>, \<open>GpioDrv.h\<close> and the CMSIS core header are not part of
  the sources at hand. The constants they define are taken as parameters, together
  with the two build switches \<open>INVERT_OUTPUT\<close> and \<open>OPEN_DRAIN\<close> that select between the
  \<open>#ifdef\<close> branches (the file as shipped has \<open>INVERT_OUTPUT\<close> off and \<open>OPEN_DRAIN\<close> on).
\<close>

record platform =
  SystemCoreClock :: "32 word"
  UART_STAT_RXRDY :: "32 word"
  UART_STAT_TXRDY :: "32 word"
  SysTick_CTRL_CLKSOURCE_Msk :: "32 word"
  SysTick_CTRL_ENABLE_Msk :: "32 word"
  GPIO_HYSTERESIS :: "32 word"
  GPIO_OPEN_DRAIN :: "32 word"
  GPIO_INPUT :: "32 word"
  GPIO_OUTPUT :: "32 word"
  INVERT_OUTPUT :: bool
  OPEN_DRAIN :: bool

subsection \<open>The registers and the access trace\<close>

datatype reg =
    Reg_PINASSIGN1
  | Reg_SYSAHBCLKCTRL1
  | Reg_PRESETCTRL1
  | Reg_UARTCLKDIV
  | Reg_SysTick_LOAD
  | Reg_SysTick_VAL
  | Reg_SysTick_CTRL
  | Reg_USART1_STAT
  | Reg_USART1_TXDATA

datatype access = Write reg "32 word" | Read_RXDATA

record hw =
  PINASSIGN1 :: "32 word"
  SYSAHBCLKCTRL1 :: "32 word"
  PRESETCTRL1 :: "32 word"
  UARTCLKDIV :: "32 word"
  SysTick_LOAD :: "32 word"
  SysTick_VAL :: "32 word"
  SysTick_CTRL :: "32 word"
  USART1_STAT :: "32 word"
  USART1_TXDATA :: "32 word"
  USART1_RXDATA :: "32 word"
  pin_config :: "int \<times> int \<Rightarrow> 32 word"
  pin_dir :: "int \<times> int \<Rightarrow> 32 word"
  pin_out :: "int \<times> int \<Rightarrow> 32 word"
  pin_in :: "int \<times> int \<Rightarrow> 32 word"
  trace :: "access list"

text \<open>
  Modelled from the spec: what a store does to the register it addresses (the
  peripheral's side, which no source file holds). Every register keeps the value
  stored, but the status register: there "the status bits are cleared by writing them
  back", that is, a 1 written to the framing-error bit (13) or the parity-error bit (14)
  clears it and nothing else of the status changes.
\<close>

fun store :: "reg \<Rightarrow> 32 word \<Rightarrow> hw \<Rightarrow> hw" where
  "store Reg_PINASSIGN1 v s = s\<lparr>PINASSIGN1 := v\<rparr>"
| "store Reg_SYSAHBCLKCTRL1 v s = s\<lparr>SYSAHBCLKCTRL1 := v\<rparr>"
| "store Reg_PRESETCTRL1 v s = s\<lparr>PRESETCTRL1 := v\<rparr>"
| "store Reg_UARTCLKDIV v s = s\<lparr>UARTCLKDIV := v\<rparr>"
| "store Reg_SysTick_LOAD v s = s\<lparr>SysTick_LOAD := v\<rparr>"
| "store Reg_SysTick_VAL v s = s\<lparr>SysTick_VAL := v\<rparr>"
| "store Reg_SysTick_CTRL v s = s\<lparr>SysTick_CTRL := v\<rparr>"
| "store Reg_USART1_STAT v s = s\<lparr>USART1_STAT := USART1_STAT s AND NOT (v AND 0x6000)\<rparr>"
| "store Reg_USART1_TXDATA v s = s\<lparr>USART1_TXDATA := v\<rparr>"

definition write_reg :: "reg \<Rightarrow> 32 word \<Rightarrow> hw \<Rightarrow> hw" where
  "write_reg r v s = (store r v s)\<lparr>trace := trace s @ [Write r v]\<rparr>"

subsection \<open>setBitBang\<close>

text \<open>
  \<^verbatim>\<open>
  if (!val) { LPC_SWM->PINASSIGN1 &= 0xFF0000FF; LPC_SWM->PINASSIGN1 |= PinAssign; }
  else      { LPC_SWM->PINASSIGN1 |= 0x00FFFF00; }
  \<close>
  Each compound assignment is a read of the register followed by a write.
\<close>

definition setBitBang :: "bool \<Rightarrow> hw \<Rightarrow> hw" where
  "setBitBang val s =
     (if \<not> val then
        (let s1 = write_reg Reg_PINASSIGN1 (PINASSIGN1 s AND 0xFF0000FF) s
         in write_reg Reg_PINASSIGN1 (PINASSIGN1 s1 OR PinAssign) s1)
      else write_reg Reg_PINASSIGN1 (PINASSIGN1 s OR 0x00FFFF00) s)"

subsection \<open>The UART and GPIO helpers of the absent headers\<close>

text \<open>
  Modelled from the spec: the inline helpers of \<open>UartLPC15xx.h\<close>, which is not
  at hand. \<open>UARTGetStatus\<close> reads the status register ("polls a peripheral status
  bit"), \<open>UARTSendByte\<close> "writes the byte to the peripheral's transmit register",
  \<open>UARTReadByte\<close> "reads one byte from the peripheral's receive register". Reading
  the status changes nothing; reading the receive register is recorded in the trace.
\<close>

definition UARTGetStatus :: "hw \<Rightarrow> 32 word" where
  "UARTGetStatus s = USART1_STAT s"

definition UARTSendByte :: "8 word \<Rightarrow> hw \<Rightarrow> hw" where
  "UARTSendByte data s = write_reg Reg_USART1_TXDATA (ucast data) s"

definition UARTReadByte :: "hw \<Rightarrow> 32 word \<times> hw" where
  "UARTReadByte s = (USART1_RXDATA s, s\<lparr>trace := trace s @ [Read_RXDATA]\<rparr>)"

text \<open>
  Modelled from the spec: the GPIO capability of \<open>GpioDrv.h\<close>, which is not at
  hand: "configure pin electrical mode, set pin direction, write a pin's output level,
  read a pin's input level, parameterized by (port, pin)". Each call keeps the last
  value given for the pin.
\<close>

definition GPIOPinConfig :: "int \<Rightarrow> int \<Rightarrow> 32 word \<Rightarrow> hw \<Rightarrow> hw" where
  "GPIOPinConfig port pin mode s = s\<lparr>pin_config := (pin_config s)((port, pin) := mode)\<rparr>"

definition GPIOSetDir :: "int \<Rightarrow> int \<Rightarrow> 32 word \<Rightarrow> hw \<Rightarrow> hw" where
  "GPIOSetDir port pin dir s = s\<lparr>pin_dir := (pin_dir s)((port, pin) := dir)\<rparr>"

definition GPIOPinWrite :: "int \<Rightarrow> int \<Rightarrow> 32 word \<Rightarrow> hw \<Rightarrow> hw" where
  "GPIOPinWrite port pin val s = s\<lparr>pin_out := (pin_out s)((port, pin) := val)\<rparr>"

definition GPIOPinRead :: "int \<Rightarrow> int \<Rightarrow> hw \<Rightarrow> 32 word" where
  "GPIOPinRead port pin s = pin_in s (port, pin)"

subsection \<open>setBit, getBit, configure\<close>

definition setBit :: "platform \<Rightarrow> 32 word \<Rightarrow> hw \<Rightarrow> hw" where
  "setBit p bit' s =
     (if \<not> INVERT_OUTPUT p then GPIOPinWrite TxPort TxPin bit' s
      else GPIOPinWrite TxPort TxPin (if bit' \<noteq> 0 then 0 else 1) s)"

definition getBit :: "hw \<Rightarrow> 32 word" where
  "getBit s = GPIOPinRead RxPort RxPin s"

definition configure :: "platform \<Rightarrow> hw \<Rightarrow> hw" where
  "configure p s =
     (let s1 = (if \<not> INVERT_OUTPUT p then GPIOPinConfig RxPort RxPin 0 s
                else GPIOPinConfig RxPort RxPin (GPIO_HYSTERESIS p) s);
          s2 = (if OPEN_DRAIN p then GPIOPinConfig TxPort TxPin (GPIO_OPEN_DRAIN p) s1
                else GPIOPinConfig TxPort TxPin 0 s1);
          s3 = GPIOSetDir RxPort RxPin (GPIO_INPUT p) s2;
          s4 = GPIOSetDir TxPort TxPin (GPIO_OUTPUT p) s3;
          s5 = write_reg Reg_SYSAHBCLKCTRL1 (SYSAHBCLKCTRL1 s4 OR push_bit 18 1) s4;
          s6 = write_reg Reg_PRESETCTRL1 (PRESETCTRL1 s5 OR push_bit 18 1) s5;
          s7 = write_reg Reg_PRESETCTRL1 (PRESETCTRL1 s6 AND NOT (push_bit 18 1)) s6;
          s8 = write_reg Reg_UARTCLKDIV 1 s7
      in setBit p 1 s8)"

text \<open>
  Modelled from the spec: the level of the K-line that a TX pin level stands for. With
  the transistor driver of the \<open>INVERT_OUTPUT\<close> build "the electrical level may be
  inverted by hardware driver topology": the line is high when the pin is low.
\<close>

definition k_line_high :: "platform \<Rightarrow> hw \<Rightarrow> bool" where
  "k_line_high p s =
     (if INVERT_OUTPUT p then pin_out s (TxPort, TxPin) = 0 else pin_out s (TxPort, TxPin) \<noteq> 0)"

subsection \<open>ready, get, clear\<close>

definition ready :: "platform \<Rightarrow> hw \<Rightarrow> bool \<times> hw" where
  "ready p s = (UARTGetStatus s AND UART_STAT_RXRDY p \<noteq> 0, s)"

definition get :: "hw \<Rightarrow> 8 word \<times> hw" where
  "get s = (let (v, s1) = UARTReadByte s in (ucast v, s1))"

definition clear :: "hw \<Rightarrow> hw" where
  "clear s =
     (if USART1_STAT s AND 0x6000 \<noteq> 0 then
        (let s1 = write_reg Reg_USART1_STAT (USART1_STAT s OR 0x6000) s
         in snd (UARTReadByte s1))
      else s)"

subsection \<open>The busy-wait loops: send and getEcho\<close>

text \<open>
  While the driver polls, the peripheral moves on its own: a byte arrives, the
  transmitter drains, the SysTick counter reaches zero. The environment gives, for the
  n-th turn of a polling loop, the values that the status register, the SysTick control
  register and the receive data register show at that turn; \<open>observe\<close> puts them into
  the register record before the loop reads them.
\<close>

record volatile =
  v_STAT :: "32 word"
  v_CTRL :: "32 word"
  v_RXDATA :: "32 word"

type_synonym env = "nat \<Rightarrow> volatile"

definition observe :: "volatile \<Rightarrow> hw \<Rightarrow> hw" where
  "observe v s = s\<lparr>SysTick_CTRL := v_CTRL v, USART1_STAT := v_STAT v, USART1_RXDATA := v_RXDATA v\<rparr>"

text \<open>
  \<^verbatim>\<open>while (!(UARTGetStatus(LPC_USART1) & UART_STAT_TXRDY)) ;\<close>
  The result is the register record at the turn where the loop is left.
\<close>

partial_function (option) send_wait :: "platform \<Rightarrow> env \<Rightarrow> nat \<Rightarrow> hw \<Rightarrow> hw option" where
  "send_wait p e n s =
     (let s1 = observe (e n) s in
      if \<not> (UARTGetStatus s1 AND UART_STAT_TXRDY p \<noteq> 0) then send_wait p e (n + 1) s1
      else Some s1)"

definition send :: "platform \<Rightarrow> env \<Rightarrow> 8 word \<Rightarrow> hw \<Rightarrow> hw option" where
  "send p e byte s =
     (case send_wait p e 0 s of
        None \<Rightarrow> None
      | Some s1 \<Rightarrow> Some (UARTSendByte byte s1))"

text \<open>
  \<^verbatim>\<open>while (!ready()) { if (SysTick->CTRL & 0x10000) return false; }\<close>
  The loop is left in one of two ways: \<open>True\<close> when \<open>ready()\<close> held (the code goes on
  to \<open>get()\<close>), \<open>False\<close> when the count flag was seen (the code returns false).
\<close>

partial_function (option) getEcho_wait :: "platform \<Rightarrow> env \<Rightarrow> nat \<Rightarrow> hw \<Rightarrow> (bool \<times> hw) option" where
  "getEcho_wait p e n s =
     (let (r, s1) = ready p (observe (e n) s) in
      if \<not> r then
        (if SysTick_CTRL s1 AND 0x10000 \<noteq> 0 then Some (False, s1)
         else getEcho_wait p e (n + 1) s1)
      else Some (True, s1))"

definition EchoTimeout :: "32 word" where
  "EchoTimeout = 20"

definition getEcho :: "platform \<Rightarrow> env \<Rightarrow> 8 word \<Rightarrow> hw \<Rightarrow> (bool \<times> hw) option" where
  "getEcho p e byte s =
     (let s1 = write_reg Reg_SysTick_LOAD (EchoTimeout * (SystemCoreClock p div 1000)) s;
          s2 = write_reg Reg_SysTick_VAL 0 s1;
          s3 = write_reg Reg_SysTick_CTRL
                 (SysTick_CTRL_CLKSOURCE_Msk p OR SysTick_CTRL_ENABLE_Msk p) s2
      in case getEcho_wait p e 0 s3 of
           None \<Rightarrow> None
         | Some (False, s4) \<Rightarrow> Some (False, s4)
         | Some (True, s4) \<Rightarrow> (let (echo, s5) = get s4 in Some (echo = byte, s5)))"

subsection \<open>What the environment shows, and what a trace holds\<close>

definition rx_ready :: "platform \<Rightarrow> volatile \<Rightarrow> bool" where
  "rx_ready p v = (v_STAT v AND UART_STAT_RXRDY p \<noteq> 0)"

definition tx_ready :: "platform \<Rightarrow> volatile \<Rightarrow> bool" where
  "tx_ready p v = (v_STAT v AND UART_STAT_TXRDY p \<noteq> 0)"

definition expired :: "volatile \<Rightarrow> bool" where
  "expired v = (v_CTRL v AND 0x10000 \<noteq> 0)"

definition rx_reads :: "access list \<Rightarrow> nat" where
  "rx_reads t = length (filter (\<lambda>a. a = Read_RXDATA) t)"

text \<open>The three SysTick writes that open \<open>getEcho\<close>, and the registers after them.\<close>

definition timer_writes :: "platform \<Rightarrow> access list" where
  "timer_writes p =
     [Write Reg_SysTick_LOAD (EchoTimeout * (SystemCoreClock p div 1000)),
      Write Reg_SysTick_VAL 0,
      Write Reg_SysTick_CTRL (SysTick_CTRL_CLKSOURCE_Msk p OR SysTick_CTRL_ENABLE_Msk p)]"

definition timer_started :: "platform \<Rightarrow> hw \<Rightarrow> hw" where
  "timer_started p s =
     s\<lparr>SysTick_LOAD := EchoTimeout * (SystemCoreClock p div 1000),
       SysTick_VAL := 0,
       SysTick_CTRL := SysTick_CTRL_CLKSOURCE_Msk p OR SysTick_CTRL_ENABLE_Msk p,
       trace := trace s @ timer_writes p\<rparr>"

subsection \<open>Concrete inputs\<close>

text \<open>
  A platform with the status bits at the positions of the LPC15xx USART (RXRDY bit 0,
  TXRDY bit 2), the SysTick bits of the Cortex-M core, a 72 MHz clock and the shipped
  build switches; the GPIO mode values stand for those of the absent header.
\<close>

definition example_platform :: platform where
  "example_platform =
     \<lparr>SystemCoreClock = 72000000, UART_STAT_RXRDY = 1, UART_STAT_TXRDY = 4,
      SysTick_CTRL_CLKSOURCE_Msk = 4, SysTick_CTRL_ENABLE_Msk = 1,
      GPIO_HYSTERESIS = 0x20, GPIO_OPEN_DRAIN = 0x400, GPIO_INPUT = 0, GPIO_OUTPUT = 1,
      INVERT_OUTPUT = False, OPEN_DRAIN = True\<rparr>"

text \<open>Registers with every pin-assignment field unassigned (0xFF), all else zero.\<close>

definition hw_unassigned :: hw where
  "hw_unassigned =
     \<lparr>PINASSIGN1 = 0xFFFFFFFF, SYSAHBCLKCTRL1 = 0, PRESETCTRL1 = 0, UARTCLKDIV = 0,
      SysTick_LOAD = 0, SysTick_VAL = 0, SysTick_CTRL = 0,
      USART1_STAT = 0, USART1_TXDATA = 0, USART1_RXDATA = 0,
      pin_config = (\<lambda>_. 0), pin_dir = (\<lambda>_. 0), pin_out = (\<lambda>_. 0), pin_in = (\<lambda>_. 0),
      trace = []\<rparr>"

text \<open>
  Environments: \<open>echo_at k c\<close> shows nothing for k polls and then the byte c with RXRDY
  set and, at that same poll, the SysTick count flag; \<open>expiry_at k\<close> never shows a
  byte and raises the count flag from poll k on; \<open>tx_free_at k\<close> sets TXRDY from poll
  k on; \<open>tx_stuck\<close> never does.
\<close>

definition echo_at :: "nat \<Rightarrow> 8 word \<Rightarrow> env" where
  "echo_at k c n =
     (if n < k then \<lparr>v_STAT = 0, v_CTRL = 5, v_RXDATA = 0\<rparr>
      else \<lparr>v_STAT = 1, v_CTRL = 0x10005, v_RXDATA = ucast c\<rparr>)"

definition expiry_at :: "nat \<Rightarrow> env" where
  "expiry_at k n =
     (if n < k then \<lparr>v_STAT = 0, v_CTRL = 5, v_RXDATA = 0\<rparr>
      else \<lparr>v_STAT = 0, v_CTRL = 0x10005, v_RXDATA = 0\<rparr>)"

definition tx_free_at :: "nat \<Rightarrow> env" where
  "tx_free_at k n =
     (if n < k then \<lparr>v_STAT = 0, v_CTRL = 0, v_RXDATA = 0\<rparr>
      else \<lparr>v_STAT = 4, v_CTRL = 0, v_RXDATA = 0\<rparr>)"

definition tx_stuck :: env where
  "tx_stuck n = \<lparr>v_STAT = 0, v_CTRL = 0, v_RXDATA = 0\<rparr>"

section \<open>Properties\<close>

subsection \<open>Bit masks of the pin assignment\<close>

lemma PinAssign_value: "PinAssign = 0x00070800"
  by (simp add: PinAssign_def RxPin_def RxPort_def TxPin_def TxPort_def)

lemma uart_fields_survive_mask:
  fixes r :: "32 word"
  shows "((r AND 0xFF0000FF) OR 0x00070800) AND 0xFF0000FF = r AND 0xFF0000FF"
  by (simp add: word_bw_comms word_bw_lcs word_ao_dist2 bit.conj_disj_distrib2)

lemma bitbang_fields_masked:
  fixes r :: "32 word"
  shows "(r OR 0x00FFFF00) AND 0xFF0000FF = r AND 0xFF0000FF"
  by (simp add: bit.conj_disj_distrib2)

lemma uart_routing_fixpoint:
  fixes r :: "32 word"
  shows "((r AND 0xFF0000FF) OR 0x00070800 = r) = (r AND 0x00FFFF00 = 0x00070800)"
proof
  assume h: "(r AND 0xFF0000FF) OR 0x00070800 = r"
  have "((r AND 0xFF0000FF) OR 0x00070800) AND 0x00FFFF00 = (0x00070800 :: 32 word)"
    by (simp add: bit.conj_disj_distrib2 word_bw_assocs)
  with h show "r AND 0x00FFFF00 = 0x00070800" by simp
next
  assume h: "r AND 0x00FFFF00 = 0x00070800"
  have ones: "(0xFF0000FF OR 0x00FFFF00 :: 32 word) = - 1" by simp
  have "(r AND 0xFF0000FF) OR (r AND 0x00FFFF00) = r AND (0xFF0000FF OR 0x00FFFF00)"
    by (rule bit.conj_disj_distrib [symmetric])
  also have "\<dots> = r" by (simp only: ones and.right_neutral)
  finally show "(r AND 0xFF0000FF) OR 0x00070800 = r" using h by simp
qed

lemma setBitBang_off_value:
  "PINASSIGN1 (setBitBang False s) = (PINASSIGN1 s AND 0xFF0000FF) OR PinAssign"
  by (simp add: setBitBang_def write_reg_def Let_def)

lemma setBitBang_on_value:
  "PINASSIGN1 (setBitBang True s) = PINASSIGN1 s OR 0x00FFFF00"
  by (simp add: setBitBang_def write_reg_def)

lemma setBitBang_frame:
  "setBitBang v s = s\<lparr>PINASSIGN1 := PINASSIGN1 (setBitBang v s), trace := trace (setBitBang v s)\<rparr>"
  by (simp add: setBitBang_def write_reg_def Let_def)

subsection \<open>setBitBang\<close>

text \<open>
  C3 (as stated, refuted): the claim says that \<open>setBitBang(true)\<close> followed by
  \<open>setBitBang(false)\<close> leaves the pin-multiplexing register at the value it had before
  the first call, for every initial value. From a register with all fields
  unassigned the pair of calls ends at 0xFF0708FF, not at 0xFFFFFFFF.
\<close>

theorem setBitBang_on_off_counterexample:
  "PINASSIGN1 (setBitBang False (setBitBang True hw_unassigned)) \<noteq> PINASSIGN1 hw_unassigned"
  by (simp add: setBitBang_off_value setBitBang_on_value hw_unassigned_def PinAssign_value)

text \<open>
  C3 (amended): \<open>setBitBang(true)\<close> followed by \<open>setBitBang(false)\<close> leaves the
  pin-multiplexing register with its outer two bytes as before and the UART routing
  \<open>PinAssign\<close> in the two middle bytes; this is the value before the first call exactly
  when the middle bytes already held \<open>PinAssign\<close>, that is, when the pins were routed
  to the UART beforehand.
\<close>

theorem setBitBang_on_off:
  "PINASSIGN1 (setBitBang False (setBitBang True s)) = (PINASSIGN1 s AND 0xFF0000FF) OR PinAssign \<and>
   ((PINASSIGN1 (setBitBang False (setBitBang True s)) = PINASSIGN1 s) =
    (PINASSIGN1 s AND 0x00FFFF00 = PinAssign))"
proof -
  have v: "PINASSIGN1 (setBitBang False (setBitBang True s)) = (PINASSIGN1 s AND 0xFF0000FF) OR PinAssign"
    by (simp add: setBitBang_off_value setBitBang_on_value bitbang_fields_masked)
  show ?thesis
    unfolding v by (simp add: PinAssign_value uart_routing_fixpoint)
qed

text \<open>
  C6: for each value v of the mode flag, a second \<open>setBitBang(v)\<close> right after the
  first leaves the pin-multiplexing register as the first left it; nothing but the
  trace of writes grows.
\<close>

theorem setBitBang_twice:
  "PINASSIGN1 (setBitBang v (setBitBang v s)) = PINASSIGN1 (setBitBang v s) \<and>
   setBitBang v (setBitBang v s) = (setBitBang v s)\<lparr>trace := trace (setBitBang v (setBitBang v s))\<rparr>"
proof -
  have same: "PINASSIGN1 (setBitBang v (setBitBang v s)) = PINASSIGN1 (setBitBang v s)"
  proof (cases v)
    case True
    then show ?thesis by (simp add: setBitBang_on_value)
  next
    case False
    then show ?thesis
      by (simp add: setBitBang_off_value PinAssign_value uart_fields_survive_mask)
  qed
  have "setBitBang v (setBitBang v s) =
      (setBitBang v s)\<lparr>PINASSIGN1 := PINASSIGN1 (setBitBang v (setBitBang v s)),
                       trace := trace (setBitBang v (setBitBang v s))\<rparr>"
    by (rule setBitBang_frame)
  with same show ?thesis by simp
qed

text \<open>
  C8: for both argument values \<open>setBitBang\<close> writes the pin-multiplexing register and
  nothing else: every other register and every pin setting is as before, the only
  writes added to the trace address PINASSIGN1, and in particular the clock control,
  reset control, clock divider, pin direction, pin configuration and pin level that
  \<open>configure\<close> set are unchanged.
\<close>

theorem setBitBang_writes_only_pinassign:
  "setBitBang v s = s\<lparr>PINASSIGN1 := PINASSIGN1 (setBitBang v s), trace := trace (setBitBang v s)\<rparr> \<and>
   trace (setBitBang v s) = trace s @
     (if v then [Write Reg_PINASSIGN1 (PINASSIGN1 s OR 0x00FFFF00)]
      else [Write Reg_PINASSIGN1 (PINASSIGN1 s AND 0xFF0000FF),
            Write Reg_PINASSIGN1 ((PINASSIGN1 s AND 0xFF0000FF) OR PinAssign)]) \<and>
   SYSAHBCLKCTRL1 (setBitBang v (configure p s)) = SYSAHBCLKCTRL1 (configure p s) \<and>
   PRESETCTRL1 (setBitBang v (configure p s)) = PRESETCTRL1 (configure p s) \<and>
   UARTCLKDIV (setBitBang v (configure p s)) = UARTCLKDIV (configure p s) \<and>
   pin_dir (setBitBang v (configure p s)) = pin_dir (configure p s) \<and>
   pin_config (setBitBang v (configure p s)) = pin_config (configure p s) \<and>
   pin_out (setBitBang v (configure p s)) = pin_out (configure p s)"
proof -
  have frame: "\<And>t. setBitBang v t = t\<lparr>PINASSIGN1 := PINASSIGN1 (setBitBang v t), trace := trace (setBitBang v t)\<rparr>"
    by (rule setBitBang_frame)
  have tr: "trace (setBitBang v s) = trace s @
     (if v then [Write Reg_PINASSIGN1 (PINASSIGN1 s OR 0x00FFFF00)]
      else [Write Reg_PINASSIGN1 (PINASSIGN1 s AND 0xFF0000FF),
            Write Reg_PINASSIGN1 ((PINASSIGN1 s AND 0xFF0000FF) OR PinAssign)])"
    by (simp add: setBitBang_def write_reg_def Let_def)
  have other: "\<And>t. SYSAHBCLKCTRL1 (setBitBang v t) = SYSAHBCLKCTRL1 t \<and>
      PRESETCTRL1 (setBitBang v t) = PRESETCTRL1 t \<and> UARTCLKDIV (setBitBang v t) = UARTCLKDIV t \<and>
      pin_dir (setBitBang v t) = pin_dir t \<and> pin_config (setBitBang v t) = pin_config t \<and>
      pin_out (setBitBang v t) = pin_out t"
    by (simp add: setBitBang_def write_reg_def Let_def)
  from frame [of s] tr other [of "configure p s"] show ?thesis by blast
qed

subsection \<open>clear\<close>

lemma error_bits_written_back:
  fixes x :: "32 word"
  shows "x AND NOT ((x OR 0x6000) AND 0x6000) = x AND NOT 0x6000"
  by (simp add: bit.conj_disj_distrib2)

lemma error_bits_cleared:
  fixes x :: "32 word"
  shows "(x AND NOT 0x6000) AND 0x6000 = 0"
  by (simp add: word_bw_assocs)

text \<open>
  C4: when neither the framing-error bit nor the parity-error bit of the status is
  set, \<open>clear\<close> returns the registers and the trace as they were (no write, no read of
  the receive register). When one of them is set, \<open>clear\<close> writes the status with both
  bits set, after which both read as zero, and then reads the receive register exactly
  once.
\<close>

theorem clear_effect:
  "(USART1_STAT s AND 0x6000 = 0 \<longrightarrow> clear s = s) \<and>
   (USART1_STAT s AND 0x6000 \<noteq> 0 \<longrightarrow>
      clear s = s\<lparr>USART1_STAT := USART1_STAT s AND NOT 0x6000,
                  trace := trace s @ [Write Reg_USART1_STAT (USART1_STAT s OR 0x6000), Read_RXDATA]\<rparr> \<and>
      USART1_STAT (clear s) AND 0x6000 = 0 \<and>
      rx_reads (trace (clear s)) = rx_reads (trace s) + 1)"
proof (intro conjI impI)
  assume "USART1_STAT s AND 0x6000 = 0"
  then show "clear s = s" by (simp add: clear_def)
next
  assume set: "USART1_STAT s AND 0x6000 \<noteq> 0"
  then show eq: "clear s = s\<lparr>USART1_STAT := USART1_STAT s AND NOT 0x6000,
      trace := trace s @ [Write Reg_USART1_STAT (USART1_STAT s OR 0x6000), Read_RXDATA]\<rparr>"
    by (simp add: clear_def write_reg_def UARTReadByte_def Let_def error_bits_written_back)
  have "USART1_STAT (clear s) = USART1_STAT s AND NOT 0x6000"
    unfolding eq by simp
  then show "USART1_STAT (clear s) AND 0x6000 = 0"
    by (simp only: error_bits_cleared)
  show "rx_reads (trace (clear s)) = rx_reads (trace s) + 1"
    unfolding eq by (simp add: rx_reads_def)
qed

theorem clear_effect_witness:
  "clear hw_unassigned = hw_unassigned \<and>
   USART1_STAT (clear (hw_unassigned\<lparr>USART1_STAT := 0x2005\<rparr>)) = 5 \<and>
   trace (clear (hw_unassigned\<lparr>USART1_STAT := 0x2005\<rparr>)) = [Write Reg_USART1_STAT 0x6005, Read_RXDATA]"
  using clear_effect [of hw_unassigned] clear_effect [of "hw_unassigned\<lparr>USART1_STAT := 0x2005\<rparr>"]
  by (simp add: hw_unassigned_def)

subsection \<open>configure and setBit\<close>

text \<open>
  C5: after \<open>configure\<close> the TX pin is an output and holds the level that \<open>setBit(1)\<close>
  wrote: 1 in the plain build, 0 in the \<open>INVERT_OUTPUT\<close> build, so that the K-line is
  high in both; in general \<open>setBit\<close> leaves the line high exactly for a non-zero
  argument.
\<close>

theorem configure_idles_high:
  "pin_out (configure p s) (TxPort, TxPin) = (if INVERT_OUTPUT p then 0 else 1) \<and>
   pin_dir (configure p s) (TxPort, TxPin) = GPIO_OUTPUT p \<and>
   k_line_high p (configure p s) \<and>
   k_line_high p (setBit p b s) = (b \<noteq> 0)"
  by (simp add: configure_def setBit_def GPIOPinWrite_def GPIOSetDir_def GPIOPinConfig_def
      write_reg_def k_line_high_def Let_def)

subsection \<open>ready\<close>

lemma ready_state: "snd (ready p s) = s"
  by (simp add: ready_def)

lemma ready_repeated: "((\<lambda>t. snd (ready p t)) ^^ n) s = s"
  by (induction n) (simp_all add: ready_state)

text \<open>
  C9: \<open>ready\<close> returns the registers and the trace exactly as it got them, and
  after any number of further calls in a row (nothing else touching the peripheral
  in between) it returns the same boolean as the first.
\<close>

theorem ready_changes_nothing:
  "snd (ready p s) = s \<and>
   fst (ready p (((\<lambda>t. snd (ready p t)) ^^ n) s)) = fst (ready p s)"
proof
  show "snd (ready p s) = s" by (rule ready_state)
  show "fst (ready p (((\<lambda>t. snd (ready p t)) ^^ n) s)) = fst (ready p s)"
    by (simp only: ready_repeated)
qed

subsection \<open>The polling loops, turn by turn\<close>

lemma observe_observe: "observe v (observe w s) = observe v s"
  by (simp add: observe_def)

lemma send_wait_observe: "send_wait p e n (observe v s) = send_wait p e n s"
  by (simp add: send_wait.simps [of p e n "observe v s"] send_wait.simps [of p e n s] observe_observe)

lemma getEcho_wait_observe: "getEcho_wait p e n (observe v s) = getEcho_wait p e n s"
  by (simp add: getEcho_wait.simps [of p e n "observe v s"] getEcho_wait.simps [of p e n s] observe_observe)

lemma status_observe: "UARTGetStatus (observe v s) = v_STAT v"
  by (simp add: UARTGetStatus_def observe_def)

lemma ready_observe: "ready p (observe v s) = (rx_ready p v, observe v s)"
  by (simp add: ready_def rx_ready_def status_observe)

lemma ctrl_observe: "SysTick_CTRL (observe v s) = v_CTRL v"
  by (simp add: observe_def)

lemma send_wait_step:
  "send_wait p e n s = (if tx_ready p (e n) then Some (observe (e n) s) else send_wait p e (Suc n) s)"
  by (simp add: send_wait.simps [of p e n s] tx_ready_def status_observe send_wait_observe Let_def)

lemma getEcho_wait_step:
  "getEcho_wait p e n s =
     (if rx_ready p (e n) then Some (True, observe (e n) s)
      else if expired (e n) then Some (False, observe (e n) s)
      else getEcho_wait p e (Suc n) s)"
  by (simp add: getEcho_wait.simps [of p e n s] ready_observe ctrl_observe expired_def
      getEcho_wait_observe)

lemma send_wait_found:
  "\<forall>j<d. \<not> tx_ready p (e (n + j)) \<Longrightarrow> tx_ready p (e (n + d)) \<Longrightarrow>
   send_wait p e n s = Some (observe (e (n + d)) s)"
proof (induction d arbitrary: n)
  case 0
  then show ?case by (simp add: send_wait_step [of p e n s])
next
  case (Suc d)
  from Suc.prems(1) have now: "\<not> tx_ready p (e n)" by (metis add.right_neutral zero_less_Suc)
  have later: "\<forall>j<d. \<not> tx_ready p (e (Suc n + j))"
    using Suc.prems(1) by (metis Suc_less_eq add_Suc_shift)
  have "send_wait p e (Suc n) s = Some (observe (e (Suc n + d)) s)"
    using Suc.IH [OF later] Suc.prems(2) by simp
  with now show ?case by (simp add: send_wait_step [of p e n s])
qed

lemma send_wait_Some:
  assumes "send_wait p e n s = Some y"
  shows "\<exists>k\<ge>n. tx_ready p (e k)"
proof (rule send_wait.raw_induct [where P = "\<lambda>p e n s y. \<exists>k\<ge>n. tx_ready p (e k)", OF _ assms])
  fix f :: "platform \<Rightarrow> env \<Rightarrow> nat \<Rightarrow> hw \<Rightarrow> hw option" and p e n s y
  assume IH: "\<And>p e n s y. f p e n s = Some y \<Longrightarrow> \<exists>k\<ge>n. tx_ready p (e k)"
  assume body: "(let s1 = observe (e n) s in
      if \<not> (UARTGetStatus s1 AND UART_STAT_TXRDY p \<noteq> 0) then f p e (n + 1) s1
      else Some s1) = Some y"
  show "\<exists>k\<ge>n. tx_ready p (e k)"
  proof (cases "tx_ready p (e n)")
    case True
    then show ?thesis by blast
  next
    case False
    with body have "f p e (n + 1) (observe (e n) s) = Some y"
      by (simp add: tx_ready_def status_observe Let_def)
    from IH [OF this] obtain k where "n + 1 \<le> k" "tx_ready p (e k)" by blast
    then have "n \<le> k \<and> tx_ready p (e k)" by simp
    then show ?thesis by blast
  qed
qed

lemma getEcho_wait_ready:
  "\<forall>j<d. \<not> rx_ready p (e (n + j)) \<and> \<not> expired (e (n + j)) \<Longrightarrow> rx_ready p (e (n + d)) \<Longrightarrow>
   getEcho_wait p e n s = Some (True, observe (e (n + d)) s)"
proof (induction d arbitrary: n)
  case 0
  then show ?case by (simp add: getEcho_wait_step [of p e n s])
next
  case (Suc d)
  from Suc.prems(1) have now: "\<not> rx_ready p (e n)" "\<not> expired (e n)"
    by (metis add.right_neutral zero_less_Suc)+
  have later: "\<forall>j<d. \<not> rx_ready p (e (Suc n + j)) \<and> \<not> expired (e (Suc n + j))"
    using Suc.prems(1) by (metis Suc_less_eq add_Suc_shift)
  have "getEcho_wait p e (Suc n) s = Some (True, observe (e (Suc n + d)) s)"
    using Suc.IH [OF later] Suc.prems(2) by simp
  with now show ?case by (simp add: getEcho_wait_step [of p e n s])
qed

lemma getEcho_wait_timeout:
  "\<forall>j<d. \<not> rx_ready p (e (n + j)) \<and> \<not> expired (e (n + j)) \<Longrightarrow>
   \<not> rx_ready p (e (n + d)) \<Longrightarrow> expired (e (n + d)) \<Longrightarrow>
   getEcho_wait p e n s = Some (False, observe (e (n + d)) s)"
proof (induction d arbitrary: n)
  case 0
  then show ?case by (simp add: getEcho_wait_step [of p e n s])
next
  case (Suc d)
  from Suc.prems(1) have now: "\<not> rx_ready p (e n)" "\<not> expired (e n)"
    by (metis add.right_neutral zero_less_Suc)+
  have later: "\<forall>j<d. \<not> rx_ready p (e (Suc n + j)) \<and> \<not> expired (e (Suc n + j))"
    using Suc.prems(1) by (metis Suc_less_eq add_Suc_shift)
  have "getEcho_wait p e (Suc n) s = Some (False, observe (e (Suc n + d)) s)"
    using Suc.IH [OF later] Suc.prems(2,3) by simp
  with now show ?case by (simp add: getEcho_wait_step [of p e n s])
qed

lemma getEcho_wait_Some:
  assumes "getEcho_wait p e n s = Some y"
  shows "\<exists>k\<ge>n. rx_ready p (e k) \<or> expired (e k)"
proof (rule getEcho_wait.raw_induct
    [where P = "\<lambda>p e n s y. \<exists>k\<ge>n. rx_ready p (e k) \<or> expired (e k)", OF _ assms])
  fix f :: "platform \<Rightarrow> env \<Rightarrow> nat \<Rightarrow> hw \<Rightarrow> (bool \<times> hw) option" and p e n s y
  assume IH: "\<And>p e n s y. f p e n s = Some y \<Longrightarrow> \<exists>k\<ge>n. rx_ready p (e k) \<or> expired (e k)"
  assume body: "(let (r, s1) = ready p (observe (e n) s) in
      if \<not> r then
        (if SysTick_CTRL s1 AND 0x10000 \<noteq> 0 then Some (False, s1)
         else f p e (n + 1) s1)
      else Some (True, s1)) = Some y"
  show "\<exists>k\<ge>n. rx_ready p (e k) \<or> expired (e k)"
  proof (cases "rx_ready p (e n) \<or> expired (e n)")
    case True
    then show ?thesis by blast
  next
    case False
    with body have "f p e (n + 1) (observe (e n) s) = Some y"
      by (simp add: ready_observe ctrl_observe expired_def)
    from IH [OF this] obtain k where "n + 1 \<le> k" "rx_ready p (e k) \<or> expired (e k)" by blast
    then have "n \<le> k \<and> (rx_ready p (e k) \<or> expired (e k))" by simp
    then show ?thesis by blast
  qed
qed

lemma first_turn:
  fixes P :: "nat \<Rightarrow> bool"
  assumes "P k"
  obtains k0 where "k0 \<le> k" and "P k0" and "\<forall>j<k0. \<not> P j"
proof -
  let ?k0 = "LEAST j. P j"
  from assms have "?k0 \<le> k" by (rule Least_le)
  moreover from assms have "P ?k0" by (rule LeastI)
  moreover have "\<forall>j<?k0. \<not> P j" using not_less_Least by blast
  ultimately show thesis using that by blast
qed

subsection \<open>send\<close>

lemma send_first_txrdy:
  assumes "\<forall>j<k. \<not> tx_ready p (e j)" and "tx_ready p (e k)"
  shows "send p e b s = Some ((observe (e k) s)\<lparr>USART1_TXDATA := ucast b,
           trace := trace s @ [Write Reg_USART1_TXDATA (ucast b)]\<rparr>)"
proof -
  have "send_wait p e 0 s = Some (observe (e (0 + k)) s)"
    using assms by (intro send_wait_found) simp_all
  then show ?thesis
    by (simp add: send_def UARTSendByte_def write_reg_def observe_def)
qed

text \<open>
  C7: \<open>send\<close> returns if and only if the transmit-ready bit shows at some poll; when
  it first shows at poll k, the registers are those seen at that poll with the byte
  stored in the transmit data register, and the trace has grown by that one write and
  nothing else (so nothing was written while the bit was clear).
\<close>

theorem send_waits_for_txrdy:
  "((\<exists>s'. send p e b s = Some s') = (\<exists>k. tx_ready p (e k))) \<and>
   ((\<forall>j<k. \<not> tx_ready p (e j)) \<and> tx_ready p (e k) \<longrightarrow>
      send p e b s = Some ((observe (e k) s)\<lparr>USART1_TXDATA := ucast b,
        trace := trace s @ [Write Reg_USART1_TXDATA (ucast b)]\<rparr>))"
proof (intro conjI impI iffI)
  assume "\<exists>s'. send p e b s = Some s'"
  then obtain y where "send_wait p e 0 s = Some y"
    by (auto simp: send_def split: option.splits)
  then show "\<exists>k. tx_ready p (e k)" using send_wait_Some by blast
next
  assume "\<exists>k. tx_ready p (e k)"
  then obtain k where "tx_ready p (e k)" ..
  then obtain k0 where "tx_ready p (e k0)" and "\<forall>j<k0. \<not> tx_ready p (e j)"
    by (rule first_turn [where P = "\<lambda>j. tx_ready p (e j)"])
  then show "\<exists>s'. send p e b s = Some s'" using send_first_txrdy by blast
next
  assume "(\<forall>j<k. \<not> tx_ready p (e j)) \<and> tx_ready p (e k)"
  then show "send p e b s = Some ((observe (e k) s)\<lparr>USART1_TXDATA := ucast b,
        trace := trace s @ [Write Reg_USART1_TXDATA (ucast b)]\<rparr>)"
    using send_first_txrdy by blast
qed

theorem send_waits_for_txrdy_witness:
  "send example_platform (tx_free_at 2) 0x55 hw_unassigned =
     Some ((observe (tx_free_at 2 2) hw_unassigned)\<lparr>USART1_TXDATA := 0x55,
       trace := [Write Reg_USART1_TXDATA 0x55]\<rparr>) \<and>
   send example_platform tx_stuck 0x55 hw_unassigned = None"
proof
  have "\<forall>j<2. \<not> tx_ready example_platform (tx_free_at 2 j)"
    by (simp add: tx_ready_def tx_free_at_def example_platform_def)
  moreover have "tx_ready example_platform (tx_free_at 2 2)"
    by (simp add: tx_ready_def tx_free_at_def example_platform_def)
  ultimately show "send example_platform (tx_free_at 2) 0x55 hw_unassigned =
     Some ((observe (tx_free_at 2 2) hw_unassigned)\<lparr>USART1_TXDATA := 0x55,
       trace := [Write Reg_USART1_TXDATA 0x55]\<rparr>)"
    using send_waits_for_txrdy [of example_platform "tx_free_at 2" "0x55" hw_unassigned 2]
    by (simp add: hw_unassigned_def)
next
  have "\<not> (\<exists>k. tx_ready example_platform (tx_stuck k))"
    by (simp add: tx_ready_def tx_stuck_def)
  then show "send example_platform tx_stuck 0x55 hw_unassigned = None"
    using send_waits_for_txrdy [of example_platform tx_stuck "0x55" hw_unassigned 0]
    by (cases "send example_platform tx_stuck 0x55 hw_unassigned") auto
qed

subsection \<open>getEcho\<close>

lemma timer_started_eq:
  "write_reg Reg_SysTick_CTRL (SysTick_CTRL_CLKSOURCE_Msk p OR SysTick_CTRL_ENABLE_Msk p)
     (write_reg Reg_SysTick_VAL 0
       (write_reg Reg_SysTick_LOAD (EchoTimeout * (SystemCoreClock p div 1000)) s)) =
   timer_started p s"
  by (simp add: write_reg_def timer_started_def timer_writes_def)

lemma getEcho_unfold:
  "getEcho p e b s =
     (case getEcho_wait p e 0 (timer_started p s) of
        None \<Rightarrow> None
      | Some (False, s4) \<Rightarrow> Some (False, s4)
      | Some (True, s4) \<Rightarrow>
          Some (ucast (USART1_RXDATA s4) = b, s4\<lparr>trace := trace s4 @ [Read_RXDATA]\<rparr>))"
  by (simp add: getEcho_def Let_def timer_started_eq get_def UARTReadByte_def
      split: option.splits bool.splits prod.splits)

lemma getEcho_first_ready:
  assumes "\<forall>j<k. \<not> rx_ready p (e j) \<and> \<not> expired (e j)" and "rx_ready p (e k)"
  shows "getEcho p e b s =
     Some (ucast (v_RXDATA (e k)) = b,
           (observe (e k) (timer_started p s))\<lparr>trace := trace s @ timer_writes p @ [Read_RXDATA]\<rparr>)"
proof -
  have "getEcho_wait p e 0 (timer_started p s) = Some (True, observe (e (0 + k)) (timer_started p s))"
    using assms by (intro getEcho_wait_ready) simp_all
  then show ?thesis
    by (simp add: getEcho_unfold observe_def timer_started_def)
qed

lemma getEcho_first_expired:
  assumes "\<forall>j<k. \<not> rx_ready p (e j) \<and> \<not> expired (e j)"
    and "\<not> rx_ready p (e k)" and "expired (e k)"
  shows "getEcho p e b s = Some (False, observe (e k) (timer_started p s))"
proof -
  have "getEcho_wait p e 0 (timer_started p s) = Some (False, observe (e (0 + k)) (timer_started p s))"
    using assms by (intro getEcho_wait_timeout) simp_all
  then show ?thesis
    by (simp add: getEcho_unfold)
qed

lemma trace_observe: "trace (observe v s) = trace s"
  by (simp add: observe_def)

lemma trace_timer_started: "trace (timer_started p s) = trace s @ timer_writes p"
  by (simp add: timer_started_def)

lemma rx_reads_append: "rx_reads (t @ u) = rx_reads t + rx_reads u"
  by (simp add: rx_reads_def)

lemma rx_reads_timer_writes: "rx_reads (timer_writes p) = 0"
  by (simp add: rx_reads_def timer_writes_def)

lemma rx_reads_one: "rx_reads [Read_RXDATA] = 1"
  by (simp add: rx_reads_def)

text \<open>
  C1: if the receive-ready bit shows at poll k and up to then no poll has shown
  either it or the SysTick count flag, then \<open>getEcho b\<close> reads the receive register
  once (the trace grows by the three timer writes and one read) and returns whether
  the byte read equals b. Nothing is asked of the count flag at poll k itself: if it
  is raised at the same poll, the byte is read all the same.
\<close>

theorem getEcho_echo_in_time:
  assumes "\<forall>j<k. \<not> rx_ready p (e j) \<and> \<not> expired (e j)" and "rx_ready p (e k)"
  shows "getEcho p e b s =
     Some (ucast (v_RXDATA (e k)) = b,
           (observe (e k) (timer_started p s))\<lparr>trace := trace s @ timer_writes p @ [Read_RXDATA]\<rparr>) \<and>
     rx_reads (trace s @ timer_writes p @ [Read_RXDATA]) = rx_reads (trace s) + 1"
  using getEcho_first_ready [OF assms]
  by (simp add: rx_reads_append rx_reads_timer_writes rx_reads_one)

theorem getEcho_echo_in_time_witness:
  "rx_ready example_platform (echo_at 2 0x55 2) \<and> expired (echo_at 2 0x55 2) \<and>
   getEcho example_platform (echo_at 2 0x55) 0x55 hw_unassigned =
     Some (True, (observe (echo_at 2 0x55 2) (timer_started example_platform hw_unassigned))
                   \<lparr>trace := timer_writes example_platform @ [Read_RXDATA]\<rparr>) \<and>
   getEcho example_platform (echo_at 2 0x55) 0x54 hw_unassigned =
     Some (False, (observe (echo_at 2 0x55 2) (timer_started example_platform hw_unassigned))
                   \<lparr>trace := timer_writes example_platform @ [Read_RXDATA]\<rparr>)"
proof -
  have quiet: "\<forall>j<2. \<not> rx_ready example_platform (echo_at 2 0x55 j) \<and> \<not> expired (echo_at 2 0x55 j)"
    by (simp add: rx_ready_def expired_def echo_at_def example_platform_def)
  have rdy: "rx_ready example_platform (echo_at 2 0x55 2)"
    by (simp add: rx_ready_def echo_at_def example_platform_def)
  have tie: "expired (echo_at 2 0x55 2)"
    by (simp add: expired_def echo_at_def)
  have byte: "v_RXDATA (echo_at 2 0x55 2) = 0x55"
    by (simp add: echo_at_def)
  have empty: "trace hw_unassigned = []"
    by (simp add: hw_unassigned_def)
  show ?thesis
    using getEcho_echo_in_time [OF quiet rdy, of "0x55" hw_unassigned]
      getEcho_echo_in_time [OF quiet rdy, of "0x54" hw_unassigned] rdy tie
    by (simp add: byte empty)
qed

text \<open>
  C2: if the SysTick count flag shows at poll k and no poll up to and including k
  has shown the receive-ready bit, then \<open>getEcho b\<close> returns false, and the trace has
  grown by the three timer writes only: the receive register was not read.
\<close>

theorem getEcho_timeout:
  assumes "expired (e k)" and "\<forall>j\<le>k. \<not> rx_ready p (e j)"
  shows "\<exists>s'. getEcho p e b s = Some (False, s') \<and>
           trace s' = trace s @ timer_writes p \<and>
           rx_reads (trace s') = rx_reads (trace s)"
proof -
  from assms(1) obtain k0 where k0: "k0 \<le> k" "expired (e k0)" "\<forall>j<k0. \<not> expired (e j)"
    by (rule first_turn [where P = "\<lambda>j. expired (e j)"])
  with assms(2) have quiet: "\<forall>j<k0. \<not> rx_ready p (e j) \<and> \<not> expired (e j)" and "\<not> rx_ready p (e k0)"
    by auto
  then have "getEcho p e b s = Some (False, observe (e k0) (timer_started p s))"
    using k0(2) by (intro getEcho_first_expired)
  then show ?thesis
    by (simp add: trace_observe trace_timer_started rx_reads_append rx_reads_timer_writes)
qed

theorem getEcho_timeout_witness:
  "\<exists>s'. getEcho example_platform (expiry_at 3) 0x55 hw_unassigned = Some (False, s') \<and>
         trace s' = timer_writes example_platform \<and> rx_reads (trace s') = 0"
proof -
  have late: "expired (expiry_at 3 5)"
    by (simp add: expired_def expiry_at_def)
  have silent: "\<forall>j\<le>5. \<not> rx_ready example_platform (expiry_at 3 j)"
    by (simp add: rx_ready_def expiry_at_def)
  show ?thesis
    using getEcho_timeout [OF late silent, of "0x55" hw_unassigned]
    by (simp add: hw_unassigned_def rx_reads_def)
qed

text \<open>
  C10: every run of \<open>getEcho b\<close> that returns has a first poll k at which the
  receive-ready bit or the count flag shows. If the ready bit shows there, the
  receive register has been read exactly once and the result is whether the byte read
  equals b, so a mismatching byte is consumed too; only if the ready bit does not show
  there (the count flag does: the timeout) is the result false with nothing read.
\<close>

theorem getEcho_consumes_unless_timeout:
  assumes "getEcho p e b s = Some (r, s')"
  shows "\<exists>k. (\<forall>j<k. \<not> rx_ready p (e j) \<and> \<not> expired (e j)) \<and>
     (if rx_ready p (e k)
      then r = (ucast (v_RXDATA (e k)) = b) \<and> rx_reads (trace s') = rx_reads (trace s) + 1
      else expired (e k) \<and> \<not> r \<and> rx_reads (trace s') = rx_reads (trace s))"
proof -
  from assms obtain y where "getEcho_wait p e 0 (timer_started p s) = Some y"
    by (auto simp: getEcho_unfold split: option.splits)
  then obtain k where "rx_ready p (e k) \<or> expired (e k)"
    using getEcho_wait_Some by blast
  then obtain k0 where ev: "rx_ready p (e k0) \<or> expired (e k0)"
    and quiet: "\<forall>j<k0. \<not> (rx_ready p (e j) \<or> expired (e j))"
    by (rule first_turn [where P = "\<lambda>j. rx_ready p (e j) \<or> expired (e j)"])
  from quiet have quiet': "\<forall>j<k0. \<not> rx_ready p (e j) \<and> \<not> expired (e j)" by blast
  show ?thesis
  proof (cases "rx_ready p (e k0)")
    case True
    from getEcho_first_ready [OF quiet' True, of b s] assms
    have "r = (ucast (v_RXDATA (e k0)) = b)" and "trace s' = trace s @ timer_writes p @ [Read_RXDATA]"
      by auto
    then have "r = (ucast (v_RXDATA (e k0)) = b) \<and> rx_reads (trace s') = rx_reads (trace s) + 1"
      by (simp add: rx_reads_append rx_reads_timer_writes rx_reads_one)
    with True quiet' show ?thesis by (intro exI [of _ k0]) simp
  next
    case False
    with ev have ex: "expired (e k0)" by blast
    from getEcho_first_expired [OF quiet' False ex, of b s] assms
    have "\<not> r" and "s' = observe (e k0) (timer_started p s)"
      by auto
    then have "\<not> r \<and> rx_reads (trace s') = rx_reads (trace s)"
      by (simp add: trace_observe trace_timer_started rx_reads_append rx_reads_timer_writes)
    with False ex quiet' show ?thesis by (intro exI [of _ k0]) simp
  qed
qed

theorem getEcho_consumes_unless_timeout_witness:
  "getEcho example_platform (echo_at 2 0x54) 0x55 hw_unassigned =
     Some (False, (observe (echo_at 2 0x54 2) (timer_started example_platform hw_unassigned))
                    \<lparr>trace := timer_writes example_platform @ [Read_RXDATA]\<rparr>) \<and>
   rx_reads (trace ((observe (echo_at 2 0x54 2) (timer_started example_platform hw_unassigned))
                    \<lparr>trace := timer_writes example_platform @ [Read_RXDATA]\<rparr>)) =
     rx_reads (trace hw_unassigned) + 1"
proof -
  let ?E = "echo_at 2 0x54"
  let ?S' = "(observe (echo_at 2 0x54 2) (timer_started example_platform hw_unassigned))
                    \<lparr>trace := timer_writes example_platform @ [Read_RXDATA]\<rparr>"
  have quiet: "\<forall>j<2. \<not> rx_ready example_platform (?E j) \<and> \<not> expired (?E j)"
    by (simp add: rx_ready_def expired_def echo_at_def example_platform_def)
  have rdy: "rx_ready example_platform (?E 2)"
    by (simp add: rx_ready_def echo_at_def example_platform_def)
  have byte: "v_RXDATA (?E 2) = 0x54"
    by (simp add: echo_at_def)
  have empty: "trace hw_unassigned = []"
    by (simp add: hw_unassigned_def)
  have run: "getEcho example_platform ?E 0x55 hw_unassigned = Some (False, ?S')"
    using getEcho_first_ready [OF quiet rdy, of "0x55" hw_unassigned]
    by (simp add: byte empty)
  from getEcho_consumes_unless_timeout [OF run]
  obtain k where branch:
    "if rx_ready example_platform (?E k)
     then False = (ucast (v_RXDATA (?E k)) = (0x55 :: 8 word)) \<and>
          rx_reads (trace ?S') = rx_reads (trace hw_unassigned) + 1
     else expired (?E k) \<and> \<not> False \<and> rx_reads (trace ?S') = rx_reads (trace hw_unassigned)"
    by blast
  have always: "rx_ready example_platform (?E k) \<or> \<not> expired (?E k)"
    by (simp add: rx_ready_def expired_def echo_at_def example_platform_def)
  from branch always have "rx_reads (trace ?S') = rx_reads (trace hw_unassigned) + 1"
    by (cases "rx_ready example_platform (?E k)") simp_all
  with run show ?thesis by blast
qed

end
